theory Spec2Isabelle
  imports Complex_Main "HOL-Library.AList"
begin

section \<open>The gdbt command line: \<^verbatim>\<open>src/gdbt/cli.py\<close>\<close>

text \<open>
  The repository's source is the command-line module \<^verbatim>\<open>gdbt/cli.py\<close>: the commands
  \<^verbatim>\<open>version\<close>, \<^verbatim>\<open>plan\<close> and \<^verbatim>\<open>apply\<close>. The modules they call
  (\<^verbatim>\<open>gdbt.stencil.load\<close>, \<^verbatim>\<open>gdbt.state.state\<close>, \<^verbatim>\<open>gdbt.state.diff\<close>,
  \<^verbatim>\<open>gdbt.state.plan\<close>, \<^verbatim>\<open>gdbt.errors\<close>) are not part of the source at hand. The
  commands are embedded as they are written, over a record \<open>core\<close> whose fields are the
  functions of those modules: every theorem about a command holds for every such record. Each
  call may raise \<^verbatim>\<open>gdbt.errors.Error\<close>, so each field returns a sum whose left injection is
  the error raised.
\<close>

subsection \<open>Python dictionaries\<close>

text \<open>
  A \<^verbatim>\<open>dict\<close> keeps its keys in insertion order and holds each key once. It is an
  association list; \<^verbatim>\<open>d.update(e)\<close> stores the items of \<open>e\<close> one after the other: the
  value of a key that is already present is replaced in place, a new key is appended.
\<close>

fun dict_update :: "('k \<times> 'v) list \<Rightarrow> ('k \<times> 'v) list \<Rightarrow> ('k \<times> 'v) list" where
  "dict_update d [] = d"
| "dict_update d ((k, v) # e) = dict_update (AList.update k v d) e"

subsection \<open>Data model\<close>

text \<open>
  Modelled from the spec: the classes of \<^verbatim>\<open>gdbt.state\<close> are missing from the source. A
  ResourceID is the triple (stencil key, provider name, resource name); a Resource carries a
  provider-type tag and a content document; an Outcome is one of Create, Delete, Update and
  NoOp; a State and a StateDiff are mappings from ResourceID.
\<close>

type_synonym resource_id = "string \<times> string \<times> string"

record resource =
  kind :: string
  content :: string

datatype outcome =
    Create resource
  | Delete resource
  | Update resource resource
  | NoOp resource

type_synonym resources = "(resource_id \<times> resource) list"

type_synonym state_snapshot = "(resource_id \<times> resource) list"

type_synonym state_diff = "(resource_id \<times> outcome) list"

record plan =
  pending :: "(resource_id \<times> outcome) list"
  carried :: "(resource_id \<times> resource) list"

text \<open>
  Modelled from the spec: \<^verbatim>\<open>gdbt.errors\<close> is missing from the source. The commands catch
  its base class \<^verbatim>\<open>Error\<close> and print its \<^verbatim>\<open>message\<close>; the spec names the kinds.
\<close>

datatype error =
    ConfigError string
  | ResolutionError string
  | ProviderError string
  | StateError string

fun message :: "error \<Rightarrow> string" where
  "message (ConfigError m) = m"
| "message (ResolutionError m) = m"
| "message (ProviderError m) = m"
| "message (StateError m) = m"

text \<open>
  Two exceptions travel through a command: a \<^verbatim>\<open>gdbt.errors.Error\<close>, and
  \<^verbatim>\<open>click.Abort\<close>, which \<^verbatim>\<open>click.confirm(..., abort=True)\<close> raises when the user
  declines.
\<close>

datatype exn = Error error | Abort

subsection \<open>What a run does: the trace and the world\<close>

datatype operation = CreateOp | UpdateOp | DeleteOp

text \<open>One call of a ResourceProvider: the operation, the resource, and whether it succeeded.\<close>

type_synonym provider_call = "operation \<times> resource_id \<times> bool"

datatype call =
    LoadConfig string
  | LoadResources string
  | Resolve string
  | NewState
  | LoadState
  | NewStateDiff
  | Outcomes
  | Render
  | NewPlan
  | PlanApply
  | PushState state_snapshot

text \<open>
  The texts the commands print. The numbers of the final message are kept as numbers (the
  source formats the duration with two decimals).
\<close>

datatype console_message =
    VersionLine string
  | UpToDate
  | PlannedChanges
  | PendingChanges
  | Rendering string
  | RunApplyHint
  | Blank
  | Done nat real
  | ErrorLine string

datatype event =
    Spin string
  | Call call
  | Invoke operation resource_id bool
  | Confirm bool
  | Print console_message

text \<open>
  The state threaded through a command: the world outside the process (the backends, the
  persisted state blobs, the clock) and the trace of what the command has done so far.
\<close>

record 'w run_state =
  world :: 'w
  trace :: "event list"

type_synonym ('a, 'w) cmd = "'w run_state \<Rightarrow> (exn + 'a) \<times> 'w run_state"

definition unit_cmd :: "'a \<Rightarrow> ('a, 'w) cmd" where
  "unit_cmd x s = (Inr x, s)"

definition raise_cmd :: "exn \<Rightarrow> ('a, 'w) cmd" where
  "raise_cmd e s = (Inl e, s)"

text \<open>Sequencing: an exception of the first part skips the rest.\<close>

definition bind_cmd :: "('a, 'w) cmd \<Rightarrow> ('a \<Rightarrow> ('b, 'w) cmd) \<Rightarrow> ('b, 'w) cmd" where
  "bind_cmd m f s = (case m s of (Inl e, s') \<Rightarrow> (Inl e, s') | (Inr x, s') \<Rightarrow> f x s')"

definition emit :: "event \<Rightarrow> (unit, 'w) cmd" where
  "emit ev s = (Inr (), s\<lparr>trace := trace s @ [ev]\<rparr>)"

definition spin :: "string \<Rightarrow> (unit, 'w) cmd" where
  "spin t = emit (Spin t)"

definition console_print :: "console_message \<Rightarrow> (unit, 'w) cmd" where
  "console_print m = emit (Print m)"

text \<open>A call that neither reads nor changes the world.\<close>

definition pure_call :: "call \<Rightarrow> error + 'a \<Rightarrow> ('a, 'w) cmd" where
  "pure_call c r s =
     (case r of Inl e \<Rightarrow> Inl (Error e) | Inr x \<Rightarrow> Inr x, s\<lparr>trace := trace s @ [Call c]\<rparr>)"

text \<open>A call that reads the world.\<close>

definition read_call :: "call \<Rightarrow> ('w \<Rightarrow> error + 'a) \<Rightarrow> ('a, 'w) cmd" where
  "read_call c f s = pure_call c (f (world s)) s"

subsection \<open>The modules the commands call\<close>

record ('p, 'x, 'sc) config =
  providers :: 'p
  evaluations :: 'x
  lookups :: 'x
  state :: 'sc

text \<open>A stencil object is its method \<^verbatim>\<open>resolve(key, providers, evaluations, lookups)\<close>.\<close>

type_synonym ('p, 'x) stencil = "string \<Rightarrow> 'p \<Rightarrow> 'x \<Rightarrow> 'x \<Rightarrow> error + resources"

record ('p, 'x, 'sc, 'w) core =
  gdbt_version :: string
  load_config :: "string \<Rightarrow> error + ('p, 'x, 'sc) config"
  load_resources :: "string \<Rightarrow> error + (string \<times> ('p, 'x) stencil) list"
  new_state :: "resources \<Rightarrow> error + state_snapshot"
  load_state :: "'sc \<Rightarrow> 'p \<Rightarrow> 'w \<Rightarrow> error + state_snapshot"
  new_state_diff :: "state_snapshot \<Rightarrow> state_snapshot \<Rightarrow> error + state_diff"
  outcomes :: "state_diff \<Rightarrow> 'p \<Rightarrow> error + (resource_id \<times> outcome) list"
  render :: "state_diff \<Rightarrow> 'p \<Rightarrow> error + string"
  new_plan :: "state_diff \<Rightarrow> error + plan"
  plan_apply :: "plan \<Rightarrow> 'p \<Rightarrow> 'w \<Rightarrow> (error + state_snapshot) \<times> provider_call list \<times> 'w"
  push_state :: "'sc \<Rightarrow> 'p \<Rightarrow> state_snapshot \<Rightarrow> 'w \<Rightarrow> (error + unit) \<times> 'w"
  clock :: "'w \<Rightarrow> real"

subsection \<open>How a command ends\<close>

datatype ending = Return | SystemExit int | Aborted | Uncaught error

text \<open>
  The handler of both commands: \<^verbatim>\<open>except gdbt.errors.Error as exc\<close> prints the message and
  raises \<^verbatim>\<open>SystemExit(1)\<close>; \<^verbatim>\<open>click.Abort\<close> is not a \<^verbatim>\<open>gdbt.errors.Error\<close> and leaves
  the command.
\<close>

definition handle :: "(unit, 'w) cmd \<Rightarrow> 'w run_state \<Rightarrow> ending \<times> 'w run_state" where
  "handle body s =
     (case body s of
        (Inr _, s') \<Rightarrow> (Return, s')
      | (Inl (Error exc), s') \<Rightarrow>
          (SystemExit 1, s'\<lparr>trace := trace s' @ [Print (ErrorLine (message exc))]\<rparr>)
      | (Inl Abort, s') \<Rightarrow> (Aborted, s'))"

text \<open>
  The exit code of the process. \<^verbatim>\<open>main()\<close> is a click group run in click's standalone
  mode: a command that returns exits with 0, \<^verbatim>\<open>SystemExit(n)\<close> exits with \<open>n\<close>,
  \<^verbatim>\<open>click.Abort\<close> is caught by click, which prints \<^verbatim>\<open>Aborted!\<close> and exits with 1, and
  an exception nobody catches ends the interpreter with 1.
\<close>

fun exit_code :: "ending \<Rightarrow> int" where
  "exit_code Return = 0"
| "exit_code (SystemExit n) = n"
| "exit_code Aborted = 1"
| "exit_code (Uncaught exc) = 1"

text \<open>A command body without a handler: an exception leaves the command as it is.\<close>

definition unhandled :: "(unit, 'w) cmd \<Rightarrow> 'w run_state \<Rightarrow> ending \<times> 'w run_state" where
  "unhandled body s =
     (case body s of
        (Inr _, s') \<Rightarrow> (Return, s')
      | (Inl (Error exc), s') \<Rightarrow> (Uncaught exc, s')
      | (Inl Abort, s') \<Rightarrow> (Aborted, s'))"

definition start :: "'w \<Rightarrow> 'w run_state" where
  "start w = \<lparr>world = w, trace = []\<rparr>"

subsection \<open>\<^verbatim>\<open>version\<close>\<close>

definition version_cmd :: "('p, 'x, 'sc, 'w) core \<Rightarrow> 'w \<Rightarrow> ending \<times> 'w run_state" where
  "version_cmd core w = unhandled (console_print (VersionLine (gdbt_version core))) (start w)"

subsection \<open>Calls that change the world\<close>

text \<open>
  \<^verbatim>\<open>plan.apply(providers)\<close> is the only call through which ResourceProviders are invoked: the
  trace records the call and then every provider operation it reports. \<^verbatim>\<open>state.push\<close> writes
  the persisted state.
\<close>

definition call_plan_apply ::
  "('p, 'x, 'sc, 'w) core \<Rightarrow> plan \<Rightarrow> 'p \<Rightarrow> (state_snapshot, 'w) cmd" where
  "call_plan_apply core pl ps s =
     (case plan_apply core pl ps (world s) of
        (r, ops, w') \<Rightarrow>
          (case r of Inl e \<Rightarrow> Inl (Error e) | Inr st \<Rightarrow> Inr st,
           s\<lparr>world := w',
             trace := trace s @ Call PlanApply # map (\<lambda>(opn, rid, ok). Invoke opn rid ok) ops\<rparr>))"

definition call_push ::
  "('p, 'x, 'sc, 'w) core \<Rightarrow> 'sc \<Rightarrow> 'p \<Rightarrow> state_snapshot \<Rightarrow> (unit, 'w) cmd" where
  "call_push core sc ps st s =
     (case push_state core sc ps st (world s) of
        (r, w') \<Rightarrow>
          (case r of Inl e \<Rightarrow> Inl (Error e) | Inr u \<Rightarrow> Inr u,
           s\<lparr>world := w', trace := trace s @ [Call (PushState st)]\<rparr>))"

text \<open>\<^verbatim>\<open>time.time()\<close> reads the clock.\<close>

definition read_clock :: "('p, 'x, 'sc, 'w) core \<Rightarrow> (real, 'w) cmd" where
  "read_clock core s = (Inr (clock core (world s)), s)"

text \<open>
  \<^verbatim>\<open>click.confirm("Apply?", abort=True)\<close>: the prompt is shown, \<open>answer\<close> is what the user
  ends up answering; a refusal raises \<^verbatim>\<open>click.Abort\<close>.
\<close>

definition confirm :: "bool \<Rightarrow> (unit, 'w) cmd" where
  "confirm answer =
     bind_cmd (emit (Confirm answer)) (\<lambda>_. if answer then unit_cmd () else raise_cmd Abort)"

subsection \<open>Resolving the stencils\<close>

text \<open>
  Both commands hold the same loop (lines 52--60 and 114--122):
  \<^verbatim>\<open>
  resources = {}
  for key, value in stencils.items():
      stencil_resources = value.resolve(key, config.providers, config.evaluations, config.lookups)
      resources.update(stencil_resources)
  \<close>
  \<open>resolve_loop\<close> is the loop from a given value of \<^verbatim>\<open>resources\<close> on.
\<close>

fun resolve_loop ::
  "('p, 'x, 'sc) config \<Rightarrow> (string \<times> ('p, 'x) stencil) list \<Rightarrow> resources \<Rightarrow> (resources, 'w) cmd"
  where
  "resolve_loop config [] resources = unit_cmd resources"
| "resolve_loop config ((key, value) # stencils) resources =
     bind_cmd
       (pure_call (Resolve key)
          (value key (providers config) (evaluations config) (lookups config)))
       (\<lambda>stencil_resources.
          resolve_loop config stencils (dict_update resources stencil_resources))"

subsection \<open>\<^verbatim>\<open>plan\<close>\<close>

text \<open>Lines 44--72: the \<^verbatim>\<open>with halo.Halo(...)\<close> block of \<^verbatim>\<open>plan\<close>.\<close>

definition plan_load ::
  "('p, 'x, 'sc, 'w) core \<Rightarrow> string \<Rightarrow>
     (('p, 'x, 'sc) config \<times> state_snapshot \<times> state_snapshot \<times> state_diff, 'w) cmd" where
  "plan_load core config_dir =
     bind_cmd (spin ''Loading'') (\<lambda>_.
     bind_cmd (spin ''Loading config'') (\<lambda>_.
     bind_cmd (pure_call (LoadConfig config_dir) (load_config core config_dir)) (\<lambda>config.
     bind_cmd (spin ''Loading resources'') (\<lambda>_.
     bind_cmd (pure_call (LoadResources config_dir) (load_resources core config_dir)) (\<lambda>stencils.
     bind_cmd (spin ''Resolving resources'') (\<lambda>_.
     bind_cmd (resolve_loop config stencils []) (\<lambda>resources.
     bind_cmd (pure_call NewState (new_state core resources)) (\<lambda>state_desired.
     bind_cmd (spin ''Loading state'') (\<lambda>_.
     bind_cmd (read_call LoadState (load_state core (state config) (providers config)))
       (\<lambda>state_current.
     bind_cmd (spin ''Calculating diff'') (\<lambda>_.
     bind_cmd (pure_call NewStateDiff (new_state_diff core state_current state_desired))
       (\<lambda>state_diff.
     unit_cmd (config, state_desired, state_current, state_diff)))))))))))))"

text \<open>Line 74: \<^verbatim>\<open>changes = len(state_diff.outcomes(config.providers).values())\<close>.\<close>

definition plan_changes ::
  "('p, 'x, 'sc, 'w) core \<Rightarrow> ('p, 'x, 'sc) config \<Rightarrow> state_diff \<Rightarrow> (nat, 'w) cmd" where
  "plan_changes core config sdiff =
     bind_cmd (pure_call Outcomes (outcomes core sdiff (providers config)))
       (\<lambda>out. unit_cmd (length out))"

text \<open>Lines 75--81.\<close>

definition plan_report ::
  "('p, 'x, 'sc, 'w) core \<Rightarrow> ('p, 'x, 'sc) config \<Rightarrow> state_diff \<Rightarrow> nat \<Rightarrow> (unit, 'w) cmd" where
  "plan_report core config sdiff changes =
     (if changes = 0 then console_print UpToDate
      else
        bind_cmd (console_print PlannedChanges) (\<lambda>_.
        bind_cmd (pure_call Render (render core sdiff (providers config))) (\<lambda>r.
        bind_cmd (console_print (Rendering r)) (\<lambda>_.
        console_print RunApplyHint))))"

definition plan_body :: "('p, 'x, 'sc, 'w) core \<Rightarrow> string \<Rightarrow> (unit, 'w) cmd" where
  "plan_body core config_dir =
     bind_cmd (plan_load core config_dir) (\<lambda>(config, state_desired, state_current, sdiff).
     bind_cmd (plan_changes core config sdiff) (\<lambda>changes.
     plan_report core config sdiff changes))"

definition plan_cmd ::
  "('p, 'x, 'sc, 'w) core \<Rightarrow> string \<Rightarrow> 'w \<Rightarrow> ending \<times> 'w run_state" where
  "plan_cmd core config_dir w = handle (plan_body core config_dir) (start w)"

subsection \<open>\<^verbatim>\<open>apply\<close>\<close>

text \<open>Lines 106--134: the first \<^verbatim>\<open>with halo.Halo(...)\<close> block of \<^verbatim>\<open>apply\<close>.\<close>

definition apply_load ::
  "('p, 'x, 'sc, 'w) core \<Rightarrow> string \<Rightarrow>
     (('p, 'x, 'sc) config \<times> state_snapshot \<times> state_snapshot \<times> state_diff, 'w) cmd" where
  "apply_load core config_dir =
     bind_cmd (spin ''Loading'') (\<lambda>_.
     bind_cmd (spin ''Loading config'') (\<lambda>_.
     bind_cmd (pure_call (LoadConfig config_dir) (load_config core config_dir)) (\<lambda>config.
     bind_cmd (spin ''Loading resources'') (\<lambda>_.
     bind_cmd (pure_call (LoadResources config_dir) (load_resources core config_dir)) (\<lambda>stencils.
     bind_cmd (spin ''Resolving resources'') (\<lambda>_.
     bind_cmd (resolve_loop config stencils []) (\<lambda>resources.
     bind_cmd (pure_call NewState (new_state core resources)) (\<lambda>state_desired.
     bind_cmd (spin ''Loading state'') (\<lambda>_.
     bind_cmd (read_call LoadState (load_state core (state config) (providers config)))
       (\<lambda>state_current.
     bind_cmd (spin ''Calculating diff'') (\<lambda>_.
     bind_cmd (pure_call NewStateDiff (new_state_diff core state_current state_desired))
       (\<lambda>state_diff.
     unit_cmd (config, state_desired, state_current, state_diff)))))))))))))"

text \<open>Line 136.\<close>

definition apply_changes ::
  "('p, 'x, 'sc, 'w) core \<Rightarrow> ('p, 'x, 'sc) config \<Rightarrow> state_diff \<Rightarrow> (nat, 'w) cmd" where
  "apply_changes core config sdiff =
     bind_cmd (pure_call Outcomes (outcomes core sdiff (providers config)))
       (\<lambda>out. unit_cmd (length out))"

text \<open>Lines 141--147, reached when \<^verbatim>\<open>changes\<close> is not 0: the report and the confirmation.\<close>

definition apply_confirm ::
  "('p, 'x, 'sc, 'w) core \<Rightarrow> ('p, 'x, 'sc) config \<Rightarrow> state_diff \<Rightarrow> bool \<Rightarrow> bool \<Rightarrow>
     (unit, 'w) cmd" where
  "apply_confirm core config sdiff auto_approve answer =
     bind_cmd (console_print PendingChanges) (\<lambda>_.
     bind_cmd (pure_call Render (render core sdiff (providers config))) (\<lambda>r.
     bind_cmd (console_print (Rendering r)) (\<lambda>_.
     bind_cmd (console_print Blank) (\<lambda>_.
     if \<not> auto_approve
     then bind_cmd (confirm answer) (\<lambda>_. console_print Blank)
     else unit_cmd ()))))"

text \<open>Lines 149--166: the execution of the plan, the push of the state, the final report.\<close>

definition apply_execute ::
  "('p, 'x, 'sc, 'w) core \<Rightarrow> ('p, 'x, 'sc) config \<Rightarrow> state_diff \<Rightarrow> nat \<Rightarrow> (unit, 'w) cmd" where
  "apply_execute core config sdiff changes =
     bind_cmd (read_clock core) (\<lambda>t_start.
     bind_cmd (pure_call NewPlan (new_plan core sdiff)) (\<lambda>pl.
     bind_cmd (call_plan_apply core pl (providers config)) (\<lambda>state_applied.
     bind_cmd (read_clock core) (\<lambda>t_end.
     bind_cmd (spin ''Uploading state'') (\<lambda>_.
     bind_cmd (call_push core (state config) (providers config) state_applied) (\<lambda>_.
     bind_cmd (spin ''Uploaded state'') (\<lambda>_.
     console_print (Done changes (t_end - t_start)))))))))"

text \<open>
  Lines 105--147: everything \<^verbatim>\<open>apply\<close> does before line 149. The \<^verbatim>\<open>return\<close> of line 139 is
  the value \<open>None\<close>; otherwise the part hands on what the rest of the command uses.
\<close>

definition apply_prepare ::
  "('p, 'x, 'sc, 'w) core \<Rightarrow> string \<Rightarrow> bool \<Rightarrow> bool \<Rightarrow>
     ((('p, 'x, 'sc) config \<times> state_diff \<times> nat) option, 'w) cmd" where
  "apply_prepare core config_dir auto_approve answer =
     bind_cmd (apply_load core config_dir) (\<lambda>(config, state_desired, state_current, sdiff).
     bind_cmd (apply_changes core config sdiff) (\<lambda>changes.
     if changes = 0
     then bind_cmd (console_print UpToDate) (\<lambda>_. unit_cmd None)
     else
       bind_cmd (apply_confirm core config sdiff auto_approve answer) (\<lambda>_.
       unit_cmd (Some (config, sdiff, changes)))))"

definition apply_body ::
  "('p, 'x, 'sc, 'w) core \<Rightarrow> string \<Rightarrow> bool \<Rightarrow> bool \<Rightarrow> (unit, 'w) cmd" where
  "apply_body core config_dir auto_approve answer =
     bind_cmd (apply_prepare core config_dir auto_approve answer) (\<lambda>r.
     case r of
       None \<Rightarrow> unit_cmd ()
     | Some (config, sdiff, changes) \<Rightarrow> apply_execute core config sdiff changes)"

definition apply_cmd ::
  "('p, 'x, 'sc, 'w) core \<Rightarrow> string \<Rightarrow> bool \<Rightarrow> bool \<Rightarrow> 'w \<Rightarrow> ending \<times> 'w run_state" where
  "apply_cmd core config_dir auto_approve answer w =
     handle (apply_body core config_dir auto_approve answer) (start w)"

section \<open>Properties\<close>

subsection \<open>The commands\<close>

text \<open>
  C8. The \<^verbatim>\<open>version\<close> command touches no core component: it calls nothing (no stencil is
  resolved, no state is loaded or pushed, no provider operation is invoked), leaves the world
  as it is, and its whole trace is the one line it prints.
\<close>

theorem version_prints_only:
  "version_cmd core w =
     (Return, \<lparr>world = w, trace = [Print (VersionLine (gdbt_version core))]\<rparr>)"
  by (simp add: version_cmd_def unhandled_def console_print_def emit_def start_def)

text \<open>
  C9. From the same core, configuration directory, world and trace, the \<^verbatim>\<open>with\<close> block of
  \<^verbatim>\<open>plan\<close> and the one of \<^verbatim>\<open>apply\<close> give the same result: the same configuration, desired
  State, current State and StateDiff (or the same error), and the same calls in the same
  order; and both commands count the same number of changes from them.
\<close>

theorem plan_apply_same_pipeline:
  "plan_load core config_dir s = apply_load core config_dir s \<and>
   plan_changes core config sdiff s' = apply_changes core config sdiff s'"
  by (simp add: plan_load_def apply_load_def plan_changes_def apply_changes_def)

end
